theory Spec2Isabelle
  imports Complex_Main "HOL-Library.Extended_Nat" "HOL-Library.Char_ord"
    "HOL-Library.List_Lexorder" "HOL-Library.Product_Lexorder"
begin

section \<open>Python exceptions as values\<close>

text \<open>
  Every \<open>raise\<close> of the modelled functions is a value of \<open>py_error\<close>; a function that can
  raise returns \<open>py_error + 'a\<close>, with \<open>Inl\<close> for the exception.
\<close>

datatype py_error = ValueError string | IndexError | ZeroDivisionError

section \<open>The ROI classes of \<open>centrack/annotation.py\<close>\<close>

text \<open>
  The dataclasses \<open>Centre\<close>, \<open>BBox\<close> and \<open>Contour\<close> all carry \<open>idx\<close>, \<open>label\<close> and
  \<open>confidence\<close>; these three fields form the common part \<open>roi\<close>. Coordinates are Python
  integers. A contour is the sequence of its vertices, as OpenCV stores it.
\<close>

record roi =
  idx :: int
  label :: string
  confidence :: real

record Centre = roi +
  position :: "int \<times> int"

record BBox = roi +
  top_left :: "int \<times> int"
  bottom_right :: "int \<times> int"

record Contour = roi +
  contour :: "(int \<times> int) list"

definition Centre_row :: "Centre \<Rightarrow> int" where
  "Centre_row c = fst (position c)"

definition Centre_col :: "Centre \<Rightarrow> int" where
  "Centre_col c = snd (position c)"

definition Centre_centre :: "Centre \<Rightarrow> int \<times> int" where
  "Centre_centre c = (Centre_row c, Centre_col c)"

definition Centre_bbox :: "Centre \<Rightarrow> BBox" where
  "Centre_bbox c =
     \<lparr>idx = idx c, label = label c, confidence = confidence c,
      top_left = (Centre_row c - 32, Centre_col c - 32),
      bottom_right = (Centre_row c + 32, Centre_col c + 32)\<rparr>"

definition BBox_height :: "BBox \<Rightarrow> int" where
  "BBox_height b =
     (case top_left b of (start_row, _) \<Rightarrow>
        case bottom_right b of (stop_row, _) \<Rightarrow> stop_row - start_row)"

definition BBox_width :: "BBox \<Rightarrow> int" where
  "BBox_width b =
     (case top_left b of (_, start_col) \<Rightarrow>
        case bottom_right b of (_, stop_col) \<Rightarrow> stop_col - start_col)"

definition BBox_dims :: "BBox \<Rightarrow> int \<times> int" where
  "BBox_dims b = (BBox_height b, BBox_width b)"

text \<open>Python's \<open>//\<close> on integers is floor division, which is \<open>div\<close> on \<open>int\<close>.\<close>

definition BBox_centre :: "BBox \<Rightarrow> Centre" where
  "BBox_centre b =
     (let r_centre = (fst (bottom_right b) + fst (top_left b)) div 2;
          c_centre = (snd (bottom_right b) + snd (top_left b)) div 2
      in \<lparr>idx = idx b, label = label b, confidence = confidence b,
          position = (r_centre, c_centre)\<rparr>)"

definition BBox_bbox :: "BBox \<Rightarrow> BBox" where
  "BBox_bbox b = b"

section \<open>All-within-threshold assignment (\<open>cenfind/core/measure.py\<close>)\<close>

text \<open>
  \<open>assign(foci, nuclei, vicinity)\<close> is duck-typed over its foci and nuclei and calls the
  helper \<open>signed_distance\<close> of \<open>cenfind.core.helpers\<close>, which is a parameter here. The
  distance is a float and the threshold an integer; Python compares them exactly.

  The inner \<open>for\<close> loop appends to \<open>assigned\<close>; the outer \<open>while\<close> loop pops the last
  element of the copied nucleus list until the list is empty.
\<close>

fun assign_foci :: "('f \<Rightarrow> 'n \<Rightarrow> real) \<Rightarrow> int \<Rightarrow> 'n \<Rightarrow> 'f list \<Rightarrow> 'f list \<Rightarrow> 'f list" where
  "assign_foci signed_distance vicinity n [] assigned = assigned"
| "assign_foci signed_distance vicinity n (f # foci) assigned =
     (let distance = signed_distance f n
      in if distance > real_of_int vicinity
         then assign_foci signed_distance vicinity n foci (assigned @ [f])
         else assign_foci signed_distance vicinity n foci assigned)"

function assign_loop ::
  "('f \<Rightarrow> 'n \<Rightarrow> real) \<Rightarrow> 'f list \<Rightarrow> int \<Rightarrow> 'n list \<Rightarrow> ('n \<times> 'f list) list
     \<Rightarrow> ('n \<times> 'f list) list" where
  "assign_loop signed_distance foci vicinity nuclei' pairs =
     (if nuclei' = [] then pairs
      else let n = last nuclei';
               assigned = assign_foci signed_distance vicinity n foci []
           in assign_loop signed_distance foci vicinity (butlast nuclei') (pairs @ [(n, assigned)]))"
  by pat_completeness auto
termination
  by (relation "measure (\<lambda>(sd, foci, vicinity, nuclei', pairs). length nuclei')") auto

declare assign_loop.simps [simp del]

definition assign ::
  "('f \<Rightarrow> 'n \<Rightarrow> real) \<Rightarrow> 'f list \<Rightarrow> 'n list \<Rightarrow> int \<Rightarrow> ('n \<times> 'f list) list" where
  "assign signed_distance foci nuclei vicinity =
     assign_loop signed_distance foci vicinity nuclei []"

section \<open>Nearest-nucleus assignment (\<open>centrack/commands/score.py\<close>, \<open>centrack/score.py\<close>)\<close>

text \<open>
  Python's \<open>max(xs, key=k)\<close> raises \<open>ValueError\<close> on an empty sequence and otherwise
  returns the first element whose key is maximal: the running best is replaced only by a
  strictly greater key.
\<close>

fun py_max_loop :: "('a \<Rightarrow> real) \<Rightarrow> 'a \<Rightarrow> 'a list \<Rightarrow> 'a" where
  "py_max_loop key best [] = best"
| "py_max_loop key best (x # xs) =
     (if key x > key best then py_max_loop key x xs else py_max_loop key best xs)"

definition py_max :: "('a \<Rightarrow> real) \<Rightarrow> 'a list \<Rightarrow> py_error + 'a" where
  "py_max key xs =
     (case xs of
        [] \<Rightarrow> Inl (ValueError ''max() arg is an empty sequence'')
      | x # xs' \<Rightarrow> Inr (py_max_loop key x xs'))"

text \<open>
  Both modules define \<open>assign(foci_list, nuclei_list)\<close>. The distance is OpenCV's
  \<open>cv2.pointPolygonTest(n.contour, c.centre, measureDist=True)\<close>, a parameter \<open>ppt\<close> of the
  model; \<open>n.contour\<close> and \<open>c.centre\<close> are read as the classes of \<open>centrack/annotation.py\<close>
  give them. The version of \<open>centrack/commands/score.py\<close> keeps a pairing only when the
  distance to the nearest nucleus exceeds \<open>-50\<close>; the older version of
  \<open>centrack/score.py\<close> keeps every pairing.
\<close>

fun commands_score_assign_loop ::
  "((int \<times> int) list \<Rightarrow> int \<times> int \<Rightarrow> real) \<Rightarrow> Contour list \<Rightarrow> Centre list
     \<Rightarrow> (Centre \<times> Contour) list \<Rightarrow> py_error + (Centre \<times> Contour) list" where
  "commands_score_assign_loop ppt nuclei_list [] assigned = Inr assigned"
| "commands_score_assign_loop ppt nuclei_list (c # foci_list) assigned =
     (let distances = map (\<lambda>n. (n, ppt (contour n) (Centre_centre c))) nuclei_list
      in case py_max snd distances of
           Inl e \<Rightarrow> Inl e
         | Inr nucleus_nearest \<Rightarrow>
             if snd nucleus_nearest > - 50
             then commands_score_assign_loop ppt nuclei_list foci_list
                    (assigned @ [(c, fst nucleus_nearest)])
             else commands_score_assign_loop ppt nuclei_list foci_list assigned)"

definition commands_score_assign ::
  "((int \<times> int) list \<Rightarrow> int \<times> int \<Rightarrow> real) \<Rightarrow> Centre list \<Rightarrow> Contour list
     \<Rightarrow> py_error + (Centre \<times> Contour) list" where
  "commands_score_assign ppt foci_list nuclei_list =
     (if length foci_list = 0 then Inl (ValueError ''Empty foci list'')
      else if length nuclei_list = 0 then Inl (ValueError ''Empty nuclei list'')
      else commands_score_assign_loop ppt nuclei_list foci_list [])"

fun centrack_score_assign_loop ::
  "((int \<times> int) list \<Rightarrow> int \<times> int \<Rightarrow> real) \<Rightarrow> Contour list \<Rightarrow> Centre list
     \<Rightarrow> (Centre \<times> Contour) list \<Rightarrow> py_error + (Centre \<times> Contour) list" where
  "centrack_score_assign_loop ppt nuclei_list [] assigned = Inr assigned"
| "centrack_score_assign_loop ppt nuclei_list (c # foci_list) assigned =
     (let distances = map (\<lambda>n. (n, ppt (contour n) (Centre_centre c))) nuclei_list
      in case py_max snd distances of
           Inl e \<Rightarrow> Inl e
         | Inr nucleus_nearest \<Rightarrow>
             centrack_score_assign_loop ppt nuclei_list foci_list
               (assigned @ [(c, fst nucleus_nearest)]))"

definition centrack_score_assign ::
  "((int \<times> int) list \<Rightarrow> int \<times> int \<Rightarrow> real) \<Rightarrow> Centre list \<Rightarrow> Contour list
     \<Rightarrow> py_error + (Centre \<times> Contour) list" where
  "centrack_score_assign ppt foci_list nuclei_list =
     (if length foci_list = 0 then Inl (ValueError ''Empty foci list'')
      else if length nuclei_list = 0 then Inl (ValueError ''Empty nuclei list'')
      else centrack_score_assign_loop ppt nuclei_list foci_list [])"

text \<open>What a returned pair must satisfy: the nucleus is one of the input, it is nearest to
  the focus, and its distance is above the threshold.\<close>

definition nearest_ok ::
  "((int \<times> int) list \<Rightarrow> int \<times> int \<Rightarrow> real) \<Rightarrow> Contour list \<Rightarrow> Centre \<times> Contour \<Rightarrow> bool" where
  "nearest_ok ppt nuclei_list p =
     (snd p \<in> set nuclei_list
      \<and> - 50 < ppt (contour (snd p)) (Centre_centre (fst p))
      \<and> (\<forall>n' \<in> set nuclei_list.
            ppt (contour n') (Centre_centre (fst p)) \<le> ppt (contour (snd p)) (Centre_centre (fst p))))"

section \<open>OpenCV's signed distance to a contour\<close>

text \<open>
  \<open>cv2.pointPolygonTest\<close> belongs to OpenCV, not to the repository. The model follows the
  routine for \<open>measureDist = True\<close> in exact real arithmetic: it walks the closed polygon
  edge by edge, starting with the edge from the last vertex to the first, keeps the least
  squared distance to an edge (\<open>edge_dist\<close>) as a fraction \<open>min_dist_num / min_dist_denom\<close> (starting from
  \<open>FLT_MAX / 1\<close> and stopping early at distance zero) and counts the edges that a ray from
  the point crosses (\<open>edge_crossing\<close>). The result is the distance to the nearest edge, positive when the
  count is odd (inside) and negative when it is even (outside); an empty contour gives
  \<open>-DBL_MAX\<close>.
\<close>

definition FLT_MAX :: real where
  "FLT_MAX = (2 ^ 24 - 1) * 2 ^ 104"

definition DBL_MAX :: real where
  "DBL_MAX = (2 ^ 53 - 1) * 2 ^ 971"

definition edge_dist :: "real \<times> real \<Rightarrow> real \<times> real \<Rightarrow> real \<times> real \<Rightarrow> real \<times> real" where
  "edge_dist pt v0 v =
     (let dx = fst v - fst v0; dy = snd v - snd v0;
          dx1 = fst pt - fst v0; dy1 = snd pt - snd v0;
          dx2 = fst pt - fst v; dy2 = snd pt - snd v
      in if dx1 * dx + dy1 * dy \<le> 0 then (dx1 * dx1 + dy1 * dy1, 1)
         else if dx2 * dx + dy2 * dy \<ge> 0 then (dx2 * dx2 + dy2 * dy2, 1)
         else ((dy1 * dx - dx1 * dy) * (dy1 * dx - dx1 * dy), dx * dx + dy * dy))"

definition edge_crossing :: "real \<times> real \<Rightarrow> real \<times> real \<Rightarrow> real \<times> real \<Rightarrow> nat" where
  "edge_crossing pt v0 v =
     (if (snd v0 \<le> snd pt \<and> snd v \<le> snd pt) \<or> (snd v0 > snd pt \<and> snd v > snd pt) then 0
      else let dx = fst v - fst v0; dy = snd v - snd v0;
               dx1 = fst pt - fst v0; dy1 = snd pt - snd v0;
               dist_num = (if dy < 0 then - (dy1 * dx - dx1 * dy) else dy1 * dx - dx1 * dy)
           in if dist_num > 0 then 1 else 0)"

fun ppt_edges ::
  "real \<times> real \<Rightarrow> ((real \<times> real) \<times> (real \<times> real)) list \<Rightarrow> real \<Rightarrow> real \<Rightarrow> nat
     \<Rightarrow> real \<times> real \<times> nat" where
  "ppt_edges pt [] min_dist_num min_dist_denom counter =
     (min_dist_num, min_dist_denom, counter)"
| "ppt_edges pt (e # edges) min_dist_num min_dist_denom counter =
     (let dist = edge_dist pt (fst e) (snd e);
          closer = (fst dist * min_dist_denom < min_dist_num * snd dist)
      in if closer \<and> fst dist = 0 then (fst dist, snd dist, counter)
         else ppt_edges pt edges
                (if closer then fst dist else min_dist_num)
                (if closer then snd dist else min_dist_denom)
                (counter + edge_crossing pt (fst e) (snd e)))"

definition contour_edges :: "(int \<times> int) list \<Rightarrow> ((real \<times> real) \<times> (real \<times> real)) list" where
  "contour_edges cnt =
     (let pts = map (\<lambda>p. (real_of_int (fst p), real_of_int (snd p))) cnt
      in zip (last pts # butlast pts) pts)"

definition pointPolygonTest :: "(int \<times> int) list \<Rightarrow> int \<times> int \<Rightarrow> real" where
  "pointPolygonTest cnt pt =
     (if cnt = [] then - DBL_MAX
      else case ppt_edges (real_of_int (fst pt), real_of_int (snd pt)) (contour_edges cnt)
                  FLT_MAX 1 0 of
             (min_dist_num, min_dist_denom, counter) \<Rightarrow>
               (if counter mod 2 = 0 then - sqrt (min_dist_num / min_dist_denom)
                else sqrt (min_dist_num / min_dist_denom)))"

section \<open>Contour geometry (\<open>centrack/annotation.py\<close>, \<open>cenfind/core/outline.py\<close>)\<close>

text \<open>
  \<open>cv2.moments\<close> and \<open>cv2.boundingRect\<close> belong to OpenCV. For a contour, \<open>cv2.moments\<close>
  sums over the edges of the closed polygon (Green's formula), starting with the edge from
  the last vertex to the first, and normalises the sign so that the area \<open>m00\<close> is not
  negative; when the signed sum is within \<open>FLT_EPSILON\<close> of zero all moments stay zero.
  Only \<open>m00\<close>, \<open>m10\<close> and \<open>m01\<close> are read by the repository, so only they are modelled, in
  exact real arithmetic. A vertex is OpenCV's \<open>(x, y)\<close>.
\<close>

record Moments =
  m00 :: real
  m10 :: real
  m01 :: real

definition FLT_EPSILON :: real where
  "FLT_EPSILON = 1 / 2 ^ 23"

fun moments_sums ::
  "real \<times> real \<Rightarrow> (real \<times> real) list \<Rightarrow> real \<times> real \<times> real \<Rightarrow> real \<times> real \<times> real" where
  "moments_sums prev [] acc = acc"
| "moments_sums prev (cur # pts) acc =
     (let dxy = fst prev * snd cur - fst cur * snd prev
      in moments_sums cur pts
           (fst acc + dxy,
            fst (snd acc) + dxy * (fst prev + fst cur),
            snd (snd acc) + dxy * (snd prev + snd cur)))"

definition moments :: "(int \<times> int) list \<Rightarrow> Moments" where
  "moments cnt =
     (if cnt = [] then \<lparr>m00 = 0, m10 = 0, m01 = 0\<rparr>
      else let pts = map (\<lambda>p. (real_of_int (fst p), real_of_int (snd p))) cnt;
               acc = moments_sums (last pts) pts (0, 0, 0);
               a00 = fst acc; a10 = fst (snd acc); a01 = snd (snd acc)
           in if \<bar>a00\<bar> > FLT_EPSILON
              then (if a00 > 0
                    then \<lparr>m00 = a00 * (1 / 2), m10 = a10 * (1 / 6), m01 = a01 * (1 / 6)\<rparr>
                    else \<lparr>m00 = a00 * (- 1 / 2), m10 = a10 * (- 1 / 6), m01 = a01 * (- 1 / 6)\<rparr>)
              else \<lparr>m00 = 0, m10 = 0, m01 = 0\<rparr>)"

text \<open>
  \<open>cv2.boundingRect\<close> of integer points returns \<open>(x, y, width, height)\<close>: the least \<open>x\<close> and
  \<open>y\<close>, and extents that count the pixels, so one more than the coordinate difference. An
  empty point set gives the empty rectangle.
\<close>

definition boundingRect :: "(int \<times> int) list \<Rightarrow> int \<times> int \<times> int \<times> int" where
  "boundingRect cnt =
     (case cnt of
        [] \<Rightarrow> (0, 0, 0, 0)
      | p # ps \<Rightarrow>
          (let xmin = fold (\<lambda>q m. min (fst q) m) ps (fst p);
               xmax = fold (\<lambda>q m. max (fst q) m) ps (fst p);
               ymin = fold (\<lambda>q m. min (snd q) m) ps (snd p);
               ymax = fold (\<lambda>q m. max (snd q) m) ps (snd p)
           in (xmin, ymin, xmax - xmin + 1, ymax - ymin + 1)))"

text \<open>
  Python's \<open>/\<close> on floats raises \<open>ZeroDivisionError\<close> for a zero divisor, and \<open>int()\<close> of a
  float truncates towards zero. The float literal \<open>1e-5\<close> is the real \<open>1 / 100000\<close> here.
\<close>

definition py_truediv :: "real \<Rightarrow> real \<Rightarrow> py_error + real" where
  "py_truediv a b = (if b = 0 then Inl ZeroDivisionError else Inr (a / b))"

definition py_int :: "real \<Rightarrow> int" where
  "py_int x = (if x < 0 then \<lceil>x\<rceil> else \<lfloor>x\<rfloor>)"

text \<open>
  \<open>Contour\<close> of \<open>centrack/annotation.py\<close>. Its \<open>bbox\<close> unpacks the rectangle of
  \<open>cv2.boundingRect\<close> as \<open>r, c, h, w\<close>, in the order OpenCV returns it.
\<close>

definition Contour_dims :: "Contour \<Rightarrow> int \<times> int" where
  "Contour_dims cn = (case boundingRect (contour cn) of (_, _, h, w) \<Rightarrow> (h, w))"

definition Contour_height :: "Contour \<Rightarrow> int" where
  "Contour_height cn = fst (Contour_dims cn)"

definition Contour_width :: "Contour \<Rightarrow> int" where
  "Contour_width cn = snd (Contour_dims cn)"

definition Contour_bbox :: "Contour \<Rightarrow> BBox" where
  "Contour_bbox cn =
     (case boundingRect (contour cn) of
        (r, c, h, w) \<Rightarrow>
          \<lparr>idx = idx cn, label = label cn, confidence = confidence cn,
           top_left = (r, c), bottom_right = (r + h, c + w)\<rparr>)"

definition Contour_centre :: "Contour \<Rightarrow> py_error + Centre" where
  "Contour_centre cn =
     (let ms = moments (contour cn)
      in case py_truediv (m01 ms) (m00 ms + 1 / 100000) of
           Inl e \<Rightarrow> Inl e
         | Inr r \<Rightarrow>
             (case py_truediv (m10 ms) (m00 ms + 1 / 100000) of
                Inl e \<Rightarrow> Inl e
              | Inr c \<Rightarrow>
                  Inr \<lparr>idx = idx cn, label = label cn, confidence = confidence cn,
                       position = (py_int r, py_int c)\<rparr>))"

text \<open>
  \<open>Centre\<close> and \<open>Contour\<close> of \<open>cenfind/core/outline.py\<close>. This \<open>Centre\<close> has an optional
  parent \<open>Centre\<close>; this \<open>Contour\<close> adds the list of its centrioles and has no \<open>bbox\<close>.
  \<open>Centre.centre\<close> applies \<open>int()\<close> to both coordinates, which leaves a Python integer as
  it is; \<open>to_numpy\<close> is the one-dimensional array of the two.
\<close>

datatype outline_Centre =
  outline_Centre (outline_position: "int \<times> int") (outline_idx: int) (outline_label: string)
    (outline_confidence: real) (outline_parent: "outline_Centre option")

record outline_Contour = Contour +
  centrioles :: "outline_Centre list"

definition outline_Centre_centre :: "outline_Centre \<Rightarrow> int \<times> int" where
  "outline_Centre_centre c = (case outline_position c of (row, col) \<Rightarrow> (row, col))"

definition outline_Contour_centre :: "outline_Contour \<Rightarrow> py_error + outline_Centre" where
  "outline_Contour_centre cn =
     (let ms = moments (contour cn)
      in case py_truediv (m10 ms) (m00 ms + 1 / 100000) of
           Inl e \<Rightarrow> Inl e
         | Inr centre_x \<Rightarrow>
             (case py_truediv (m01 ms) (m00 ms + 1 / 100000) of
                Inl e \<Rightarrow> Inl e
              | Inr centre_y \<Rightarrow>
                  Inr (outline_Centre (py_int centre_y, py_int centre_x) (idx cn) (label cn)
                         (confidence cn) None)))"

section \<open>Accuracy of one field (\<open>field_metrics\<close> of \<open>cenfind/core/measure.py\<close>)\<close>

text \<open>
  The values of the returned dictionary are strings, integers and floats. \<open>Field\<close> comes
  from \<open>cenfind.core.data\<close>; \<open>field_metrics\<close> reads the name of its dataset's path and its own
  name. \<open>points_matching\<close> belongs to \<open>spotipy\<close> and is a parameter that may raise; of its
  result only \<open>precision\<close>, \<open>recall\<close> and \<open>f1\<close> are read.
\<close>

datatype py_value = PyStr string | PyInt int | PyFloat real

record Field =
  dataset_path_name :: string
  field_name :: string

record matching_stats =
  precision :: real
  recall :: real
  f1 :: real

text \<open>
  \<open>np.round(x, decimals)\<close> scales by a power of ten, rounds to the nearest integer with
  ties going to the even one, and scales back.
\<close>

definition rint :: "real \<Rightarrow> int" where
  "rint x =
     (let f = \<lfloor>x\<rfloor>; d = x - real_of_int f
      in if d < 1 / 2 then f else if d > 1 / 2 then f + 1 else if even f then f else f + 1)"

definition np_round :: "real \<Rightarrow> nat \<Rightarrow> real" where
  "np_round x decimals = real_of_int (rint (x * 10 ^ decimals)) / 10 ^ decimals"

text \<open>
  The guard is \<open>all((len(predictions), len(annotation))) > 0\<close>: \<open>all\<close> of the two lengths is
  a boolean, true when neither is zero, and a boolean compares with \<open>0\<close> as the integer
  \<open>1\<close> or \<open>0\<close>.
\<close>

definition py_all :: "nat list \<Rightarrow> bool" where
  "py_all xs = list_all (\<lambda>n. n \<noteq> 0) xs"

definition int_of_bool :: "bool \<Rightarrow> int" where
  "int_of_bool b = (if b then 1 else 0)"

definition field_metrics ::
  "((int \<times> int) list \<Rightarrow> (int \<times> int) list \<Rightarrow> int \<Rightarrow> py_error + matching_stats)
     \<Rightarrow> Field \<Rightarrow> int \<Rightarrow> (int \<times> int) list \<Rightarrow> (int \<times> int) list \<Rightarrow> int
     \<Rightarrow> py_error + (string \<rightharpoonup> py_value)" where
  "field_metrics points_matching field channel annotation predictions tolerance =
     (case (if int_of_bool (py_all [length predictions, length annotation]) > 0
            then points_matching annotation predictions tolerance
            else Inr \<lparr>precision = 0, recall = 0, f1 = 0\<rparr>) of
        Inl e \<Rightarrow> Inl e
      | Inr res \<Rightarrow>
          Inr [''dataset'' \<mapsto> PyStr (dataset_path_name field),
               ''field'' \<mapsto> PyStr (field_name field),
               ''channel'' \<mapsto> PyInt channel,
               ''n_actual'' \<mapsto> PyInt (int (length annotation)),
               ''n_preds'' \<mapsto> PyInt (int (length predictions)),
               ''tolerance'' \<mapsto> PyInt tolerance,
               ''precision'' \<mapsto> PyFloat (np_round (precision res) 3),
               ''recall'' \<mapsto> PyFloat (np_round (recall res) 3),
               ''f1'' \<mapsto> PyFloat (np_round (f1 res) 3)])"

section \<open>Frequency binning (\<open>field_score_frequency\<close> of \<open>cenfind/core/measure.py\<close>)\<close>

text \<open>
  A row of the score table, as \<open>field_score\<close> builds it: the score is \<open>len(_foci)\<close>, a
  count. The cut points are \<open>[0, 1, 2, 3, 4, 5, np.inf]\<close>.

  \<open>pd.cut(x, bins, right=False, labels=labels)\<close> finds for each value the number \<open>ids\<close> of
  cut points that are at most the value (\<open>searchsorted\<close> from the right on the sorted cut
  points); a value below the first cut point (\<open>ids = 0\<close>) or not below the last
  (\<open>ids = len(bins)\<close>) has no category, and any other value has the category
  \<open>labels[ids - 1]\<close>, that of the interval \<open>[bins[ids - 1], bins[ids])\<close>. With
  \<open>right=False\<close> the option \<open>include_lowest\<close> changes nothing.
\<close>

record score_row =
  fov :: string
  channel :: int
  nucleus :: "int \<times> int"
  score :: nat
  is_full :: bool

definition cuts :: "enat list" where
  "cuts = [0, 1, 2, 3, 4, 5, \<infinity>]"

definition labels :: "string list" where
  "labels = [''0'', ''1'', ''2'', ''3'', ''4'', ''+'']"

definition searchsorted_right :: "enat list \<Rightarrow> enat \<Rightarrow> nat" where
  "searchsorted_right bins x = length (takeWhile (\<lambda>b. b \<le> x) bins)"

definition pd_cut :: "enat list \<Rightarrow> string list \<Rightarrow> nat \<Rightarrow> string option" where
  "pd_cut bins lbls x =
     (let ids = searchsorted_right bins (enat x)
      in if ids = 0 \<or> ids = length bins then None else Some (lbls ! (ids - 1)))"

text \<open>
  The categories are grouped by \<open>(fov, channel)\<close> and counted; the count of a categorical
  series has an entry for every category, zero included, and none for a missing value.
  Sorting and pivoting give one row per group, in the order of the groups, with one
  column per category, in the order of the labels.
\<close>

definition field_score_frequency ::
  "score_row list \<Rightarrow> ((string \<times> int) \<times> (string \<times> nat) list) list" where
  "field_score_frequency df =
     (let result = map (\<lambda>r. ((fov r, channel r), pd_cut cuts labels (score r))) df;
          groups = sort (remdups (map fst result))
      in map (\<lambda>g. (g, map (\<lambda>l. (l, length (filter (\<lambda>x. x = (g, Some l)) result))) labels))
           groups)"

section \<open>Saving the detected foci (\<open>save_foci\<close> of \<open>cenfind/cli/score.py\<close>)\<close>

text \<open>
  The arrays of \<open>save_foci\<close> hold integers and have one or two dimensions. \<open>np.array([])\<close>
  is one-dimensional and empty. \<open>np.stack\<close> of a list of one-dimensional arrays of equal
  length is the two-dimensional array with these rows; it raises \<open>ValueError\<close> for an empty
  list and for arrays of different shapes. Indexing \<open>array[:, cols]\<close> needs two dimensions
  (\<open>IndexError\<close> otherwise) and every column index in range.
\<close>

datatype ndarray = Array1 "int list" | Array2 "int list list"

definition to_numpy :: "outline_Centre \<Rightarrow> int list" where
  "to_numpy c = (case outline_Centre_centre c of (row, col) \<Rightarrow> [row, col])"

definition np_stack :: "int list list \<Rightarrow> py_error + ndarray" where
  "np_stack arrays =
     (case arrays of
        [] \<Rightarrow> Inl (ValueError ''need at least one array to stack'')
      | a # as \<Rightarrow>
          if list_all (\<lambda>b. length b = length a) as then Inr (Array2 arrays)
          else Inl (ValueError ''all input arrays must have the same shape''))"

definition take_columns :: "ndarray \<Rightarrow> nat list \<Rightarrow> py_error + ndarray" where
  "take_columns array cols =
     (case array of
        Array1 xs \<Rightarrow> Inl IndexError
      | Array2 rows \<Rightarrow>
          if list_all (\<lambda>row. list_all (\<lambda>j. j < length row) cols) rows
          then Inr (Array2 (map (\<lambda>row. map (\<lambda>j. row ! j) cols) rows))
          else Inl IndexError)"

text \<open>
  \<open>'%u' % n\<close> is the decimal numeral of the integer \<open>n\<close>, with a minus sign when \<open>n\<close> is
  negative.
\<close>

definition digit_char :: "nat \<Rightarrow> char" where
  "digit_char d = ''0123456789'' ! d"

function digits :: "nat \<Rightarrow> string" where
  "digits n = (if n < 10 then [digit_char n] else digits (n div 10) @ [digit_char (n mod 10)])"
  by pat_completeness auto
termination
  by (relation "measure id") auto

declare digits.simps [simp del]

definition format_u :: "int \<Rightarrow> string" where
  "format_u n = (if n < 0 then CHR ''-'' # digits (nat (- n)) else digits (nat n))"

text \<open>
  \<open>np.savetxt(dst, X, delimiter, fmt)\<close> writes one line per row of \<open>X\<close>: the formatted
  entries of the row, joined by the delimiter, and a newline. A one-dimensional array is
  written as a single column. The file system is a map from paths to contents.
\<close>

fun join :: "string \<Rightarrow> string list \<Rightarrow> string" where
  "join delimiter [] = []"
| "join delimiter [x] = x"
| "join delimiter (x # y # ys) = x @ delimiter @ join delimiter (y # ys)"

definition newline :: char where
  "newline = CHR 0x0A"

definition savetxt ::
  "string \<Rightarrow> ndarray \<Rightarrow> string \<Rightarrow> (string \<rightharpoonup> string) \<Rightarrow> (string \<rightharpoonup> string)" where
  "savetxt dst X delimiter files =
     (let rows = (case X of Array1 xs \<Rightarrow> map (\<lambda>x. [x]) xs | Array2 rows \<Rightarrow> rows)
      in files(dst \<mapsto> concat (map (\<lambda>row. join delimiter (map format_u row) @ [newline]) rows)))"

definition save_foci ::
  "outline_Centre list \<Rightarrow> string \<Rightarrow> (string \<rightharpoonup> string) \<Rightarrow> py_error + (string \<rightharpoonup> string)" where
  "save_foci foci_list dst files =
     (case (if length foci_list = 0 then Inr (Array1 [])
            else np_stack (map to_numpy foci_list)) of
        Inl e \<Rightarrow> Inl e
      | Inr array \<Rightarrow>
          (case take_columns array [1, 0] of
             Inl e \<Rightarrow> Inl e
           | Inr X \<Rightarrow> Inr (savetxt dst X '','' files)))"

section \<open>Properties of the all-within-threshold assignment\<close>

lemma assign_foci_filter:
  "assign_foci sd v n foci acc = acc @ filter (\<lambda>f. real_of_int v < sd f n) foci"
  by (induction foci arbitrary: acc) (simp_all add: Let_def)

lemma assign_loop_map:
  "assign_loop sd foci v ns pairs =
     pairs @ map (\<lambda>n. (n, filter (\<lambda>f. real_of_int v < sd f n) foci)) (rev ns)"
proof (induction ns arbitrary: pairs rule: rev_induct)
  case Nil
  show ?case by (subst assign_loop.simps) simp
next
  case (snoc x xs)
  show ?case
    by (subst assign_loop.simps) (simp add: Let_def snoc.IH assign_foci_filter)
qed

lemma assign_map:
  "assign sd foci nuclei v =
     map (\<lambda>n. (n, filter (\<lambda>f. real_of_int v < sd f n) foci)) (rev nuclei)"
  by (simp add: assign_def assign_loop_map)

text \<open>
  Claim C1. For all foci, nuclei and vicinity, the all-within-threshold \<open>assign\<close> returns
  one pair per entry of the nucleus list (the nuclei of the pairs are the input nuclei,
  last first, so distinct input nuclei stay distinct), and the focus list of each pair is
  exactly the foci whose signed distance to that nucleus exceeds the vicinity, in input
  order. An empty foci list gives every nucleus the empty list. Nothing makes the lists
  exclusive: with two nuclei that are both within reach of one focus, the focus is in
  both lists.
\<close>

theorem assign_one_pair_per_nucleus:
  "map fst (assign sd foci nuclei v) = rev nuclei
   \<and> length (assign sd foci nuclei v) = length nuclei
   \<and> (distinct nuclei \<longrightarrow> distinct (map fst (assign sd foci nuclei v)))
   \<and> (\<forall>p \<in> set (assign sd foci nuclei v).
         snd p = filter (\<lambda>f. real_of_int v < sd f (fst p)) foci)
   \<and> assign sd [] nuclei v = map (\<lambda>n. (n, [])) (rev nuclei)
   \<and> assign (\<lambda>f n. 0) [f0] [n1, n2] (- 50) = [(n2, [f0]), (n1, [f0])]"
proof -
  have a: "map fst (assign sd foci nuclei v) = rev nuclei"
    by (simp add: assign_map comp_def)
  have b: "length (assign sd foci nuclei v) = length nuclei"
    by (simp add: assign_map)
  have c: "distinct nuclei \<longrightarrow> distinct (map fst (assign sd foci nuclei v))"
    by (simp add: a)
  have d: "\<forall>p \<in> set (assign sd foci nuclei v).
             snd p = filter (\<lambda>f. real_of_int v < sd f (fst p)) foci"
    by (auto simp: assign_map)
  have e: "assign sd [] nuclei v = map (\<lambda>n. (n, [])) (rev nuclei)"
    by (simp add: assign_map)
  have f: "assign (\<lambda>f n. 0) [f0] [n1, n2] (- 50) = [(n2, [f0]), (n1, [f0])]"
    by (simp add: assign_map)
  from a b c d e f show ?thesis by blast
qed

theorem assign_one_pair_per_nucleus_witness:
  "assign (\<lambda>f n. real_of_int (f - n)) [1, 7, 30] [10, 20 :: int] (- 5)
     = [(20, [30]), (10, [7, 30 :: int])]
   \<and> distinct (map fst (assign (\<lambda>f n. real_of_int (f - n)) [1, 7, 30] [10, 20 :: int] (- 5)))
   \<and> snd (20 :: int, [30 :: int]) = filter (\<lambda>f. real_of_int (- 5) < real_of_int (f - 20)) [1, 7, 30]"
proof -
  have h: "distinct [10, 20 :: int]" by simp
  have m: "(20 :: int, [30 :: int]) \<in>
      set (assign (\<lambda>f n. real_of_int (f - n)) [1, 7, 30] [10, 20 :: int] (- 5))"
    by (simp add: assign_map)
  note t = assign_one_pair_per_nucleus
    [of "\<lambda>f n. real_of_int (f - n)" "[1, 7, 30]" "[10, 20 :: int]" "- 5" "0 :: int" "0 :: int" 1]
  from t [THEN conjunct2, THEN conjunct2, THEN conjunct1] h have 1: "distinct (map fst (assign (\<lambda>f n. real_of_int (f - n)) [1, 7, 30] [10, 20 :: int] (- 5)))"
    by blast
  from t [THEN conjunct2, THEN conjunct2, THEN conjunct2, THEN conjunct1] m have 2: "snd (20 :: int, [30 :: int])
      = filter (\<lambda>f. real_of_int (- 5) < real_of_int (f - 20)) [1, 7, 30]"
    by (metis fst_conv)
  have 3: "assign (\<lambda>f n. real_of_int (f - n)) [1, 7, 30] [10, 20 :: int] (- 5)
     = [(20, [30]), (10, [7, 30 :: int])]"
    by (simp add: assign_map)
  from 1 2 3 show ?thesis by blast
qed

section \<open>Properties of \<open>BBox\<close>\<close>

lemma fold_min_le: "fold (\<lambda>q m. min (f q) m) ps a \<le> (a :: int)"
proof (induction ps arbitrary: a)
  case Nil
  show ?case by simp
next
  case (Cons p ps)
  have "fold (\<lambda>q m. min (f q) m) ps (min (f p) a) \<le> min (f p) a" by (rule Cons.IH)
  then show ?case by simp
qed

lemma fold_max_ge: "(a :: int) \<le> fold (\<lambda>q m. max (f q) m) ps a"
proof (induction ps arbitrary: a)
  case Nil
  show ?case by simp
next
  case (Cons p ps)
  have "max (f p) a \<le> fold (\<lambda>q m. max (f q) m) ps (max (f p) a)" by (rule Cons.IH)
  then show ?case by simp
qed

lemma boundingRect_extent_nonneg:
  "0 \<le> fst (snd (snd (boundingRect cnt))) \<and> 0 \<le> snd (snd (snd (boundingRect cnt)))"
proof (cases cnt)
  case Nil
  then show ?thesis by (simp add: boundingRect_def)
next
  case (Cons p ps)
  have x: "fold (\<lambda>q m. min (fst q) m) ps (fst p) \<le> fold (\<lambda>q m. max (fst q) m) ps (fst p)"
    using fold_min_le [of fst ps "fst p"] fold_max_ge [of "fst p" fst ps] by linarith
  have y: "fold (\<lambda>q m. min (snd q) m) ps (snd p) \<le> fold (\<lambda>q m. max (snd q) m) ps (snd p)"
    using fold_min_le [of snd ps "snd p"] fold_max_ge [of "snd p" snd ps] by linarith
  from x y show ?thesis by (simp add: boundingRect_def Cons Let_def)
qed

lemma Contour_bbox_dims_nonneg:
  "0 \<le> BBox_height (Contour_bbox cn) \<and> 0 \<le> BBox_width (Contour_bbox cn)"
  using boundingRect_extent_nonneg [of "contour cn"]
  by (auto simp: Contour_bbox_def BBox_height_def BBox_width_def split: prod.splits)

text \<open>
  Claim C7, as the specification states it, asks \<open>height \<ge> 0\<close> and \<open>width \<ge> 0\<close> of every
  \<open>BBox\<close>. The dataclass validates nothing: a box whose corners are swapped has negative
  dimensions.
\<close>

theorem BBox_negative_height_counterexample:
  "BBox_height \<lparr>idx = 0, label = ''Nucleus'', confidence = 0,
                top_left = (5, 5), bottom_right = (0, 0)\<rparr> = - 5"
  by (simp add: BBox_height_def)

text \<open>
  Claim C7, amended. For every \<open>BBox\<close>, height and width are the differences of the corner
  rows and columns and the centre is the floor midpoint of the corners, carrying the box's
  index, label and confidence. Height and width are non-negative exactly when the top-left
  corner is componentwise at most the bottom-right corner; this is so for the boxes the
  code builds: the box of \<open>Centre.bbox\<close> is 64 by 64, and the box of \<open>Contour.bbox\<close> has
  non-negative height and width.
\<close>

theorem BBox_dims_centre:
  "BBox_height b = fst (bottom_right b) - fst (top_left b)
   \<and> BBox_width b = snd (bottom_right b) - snd (top_left b)
   \<and> position (BBox_centre b)
       = ((fst (top_left b) + fst (bottom_right b)) div 2,
          (snd (top_left b) + snd (bottom_right b)) div 2)
   \<and> idx (BBox_centre b) = idx b \<and> label (BBox_centre b) = label b
   \<and> confidence (BBox_centre b) = confidence b
   \<and> ((0 \<le> BBox_height b \<and> 0 \<le> BBox_width b)
        = (fst (top_left b) \<le> fst (bottom_right b) \<and> snd (top_left b) \<le> snd (bottom_right b)))
   \<and> BBox_dims (Centre_bbox c) = (64, 64)
   \<and> 0 \<le> BBox_height (Contour_bbox cn) \<and> 0 \<le> BBox_width (Contour_bbox cn)"
proof -
  have a: "BBox_height b = fst (bottom_right b) - fst (top_left b)"
    by (simp add: BBox_height_def split: prod.splits)
  have b: "BBox_width b = snd (bottom_right b) - snd (top_left b)"
    by (simp add: BBox_width_def split: prod.splits)
  have c: "position (BBox_centre b)
       = ((fst (top_left b) + fst (bottom_right b)) div 2,
          (snd (top_left b) + snd (bottom_right b)) div 2)"
    by (simp add: BBox_centre_def Let_def add.commute)
  have d: "idx (BBox_centre b) = idx b" "label (BBox_centre b) = label b"
    "confidence (BBox_centre b) = confidence b"
    by (simp_all add: BBox_centre_def Let_def)
  have e: "(0 \<le> BBox_height b \<and> 0 \<le> BBox_width b)
        = (fst (top_left b) \<le> fst (bottom_right b) \<and> snd (top_left b) \<le> snd (bottom_right b))"
    by (simp add: a b)
  have f: "BBox_dims (Centre_bbox c) = (64, 64)"
    by (simp add: BBox_dims_def BBox_height_def BBox_width_def Centre_bbox_def)
  have g: "0 \<le> BBox_height (Contour_bbox cn)" "0 \<le> BBox_width (Contour_bbox cn)"
    using Contour_bbox_dims_nonneg [of cn] by simp_all
  show ?thesis by (intro conjI) (rule a b c d e f g)+
qed

theorem BBox_dims_centre_witness:
  "BBox_height \<lparr>idx = 1, label = ''Nucleus'', confidence = 1,
                top_left = (2, 3), bottom_right = (11, 7)\<rparr> = 9
   \<and> BBox_width \<lparr>idx = 1, label = ''Nucleus'', confidence = 1,
                top_left = (2, 3), bottom_right = (11, 7)\<rparr> = 4
   \<and> position (BBox_centre \<lparr>idx = 1, label = ''Nucleus'', confidence = 1,
                top_left = (2, 3), bottom_right = (11, 7)\<rparr>) = (6, 5)"
  using BBox_dims_centre [of "\<lparr>idx = 1, label = ''Nucleus'', confidence = 1,
                top_left = (2, 3), bottom_right = (11, 7)\<rparr>"]
  by simp

section \<open>Properties of the nearest-nucleus assignment\<close>

lemma py_max_loop_mem: "py_max_loop key b xs \<in> set (b # xs)"
  by (induction xs arbitrary: b) auto

lemma py_max_loop_ge_best: "key b \<le> key (py_max_loop key b xs)"
proof (induction xs arbitrary: b)
  case Nil
  show ?case by simp
next
  case (Cons x xs)
  show ?case
  proof (cases "key x > key b")
    case True
    have "key x \<le> key (py_max_loop key x xs)" by (rule Cons.IH)
    with True show ?thesis by simp
  next
    case False
    then show ?thesis by (simp add: Cons.IH)
  qed
qed

lemma py_max_loop_ge: "y \<in> set xs \<Longrightarrow> key y \<le> key (py_max_loop key b xs)"
proof (induction xs arbitrary: b)
  case Nil
  then show ?case by simp
next
  case (Cons x xs)
  show ?case
  proof (cases "y = x")
    case True
    show ?thesis
    proof (cases "key x > key b")
      case True
      then show ?thesis using \<open>y = x\<close> py_max_loop_ge_best [of key x xs] by simp
    next
      case False
      then have "key x \<le> key b" by simp
      also have "key b \<le> key (py_max_loop key b xs)" by (rule py_max_loop_ge_best)
      finally show ?thesis using False \<open>y = x\<close> by simp
    qed
  next
    case False
    with Cons.prems have "y \<in> set xs" by simp
    then show ?thesis using Cons.IH by simp
  qed
qed

lemma py_max_nonempty:
  assumes "xs \<noteq> []"
  shows "\<exists>m. py_max key xs = Inr m \<and> m \<in> set xs \<and> (\<forall>x \<in> set xs. key x \<le> key m)"
proof -
  from assms obtain x xs' where xs: "xs = x # xs'" by (cases xs) auto
  let ?m = "py_max_loop key x xs'"
  have 1: "py_max key xs = Inr ?m" by (simp add: py_max_def xs)
  have 2: "?m \<in> set xs" using py_max_loop_mem [of key x xs'] by (simp add: xs)
  have 3: "\<forall>y \<in> set xs. key y \<le> key ?m"
    using py_max_loop_ge_best [of key x xs'] py_max_loop_ge [of _ xs' key x] by (auto simp: xs)
  from 1 2 3 show ?thesis by blast
qed

lemma nearest_nucleus:
  assumes "nuclei_list \<noteq> []"
  shows "\<exists>n. py_max snd (map (\<lambda>n. (n, d n)) nuclei_list) = Inr (n, d n)
             \<and> n \<in> set nuclei_list \<and> (\<forall>n' \<in> set nuclei_list. d n' \<le> d n)"
proof -
  from assms have "map (\<lambda>n. (n, d n)) nuclei_list \<noteq> []" by simp
  from py_max_nonempty [OF this, of snd]
  obtain m where m: "py_max snd (map (\<lambda>n. (n, d n)) nuclei_list) = Inr m"
    "m \<in> set (map (\<lambda>n. (n, d n)) nuclei_list)"
    "\<forall>x \<in> set (map (\<lambda>n. (n, d n)) nuclei_list). snd x \<le> snd m" by blast
  from m(2) obtain n where n: "n \<in> set nuclei_list" "m = (n, d n)" by auto
  from m(3) n(2) have "\<forall>n' \<in> set nuclei_list. d n' \<le> d n" by auto
  with m(1) n show ?thesis by blast
qed

lemma commands_score_assign_loop_spec:
  assumes "nuclei_list \<noteq> []"
  shows "\<exists>r. commands_score_assign_loop ppt nuclei_list foci_list acc = Inr (acc @ r)
     \<and> map fst r
         = filter (\<lambda>c. \<exists>n \<in> set nuclei_list. - 50 < ppt (contour n) (Centre_centre c)) foci_list
     \<and> (\<forall>p \<in> set r. nearest_ok ppt nuclei_list p)"
proof (induction foci_list arbitrary: acc)
  case Nil
  show ?case by simp
next
  case (Cons c foci_list)
  let ?d = "\<lambda>n. ppt (contour n) (Centre_centre c)"
  from nearest_nucleus [OF assms, of ?d]
  obtain n where n: "py_max snd (map (\<lambda>n. (n, ?d n)) nuclei_list) = Inr (n, ?d n)"
    "n \<in> set nuclei_list" "\<forall>n' \<in> set nuclei_list. ?d n' \<le> ?d n" by blast
  show ?case
  proof (cases "- 50 < ?d n")
    case True
    from Cons.IH [of "acc @ [(c, n)]"]
    obtain r where r: "commands_score_assign_loop ppt nuclei_list foci_list (acc @ [(c, n)])
        = Inr ((acc @ [(c, n)]) @ r)"
      "map fst r = filter (\<lambda>c. \<exists>n \<in> set nuclei_list. - 50 < ppt (contour n) (Centre_centre c)) foci_list"
      "\<forall>p \<in> set r. nearest_ok ppt nuclei_list p" by blast
    have 1: "commands_score_assign_loop ppt nuclei_list (c # foci_list) acc = Inr (acc @ ((c, n) # r))"
      using n(1) True r(1) by (simp add: Let_def)
    have ex: "\<exists>n \<in> set nuclei_list. - 50 < ?d n" using n(2) True by blast
    have 2: "map fst ((c, n) # r)
        = filter (\<lambda>c. \<exists>n \<in> set nuclei_list. - 50 < ppt (contour n) (Centre_centre c)) (c # foci_list)"
      using ex r(2) by simp
    have "nearest_ok ppt nuclei_list (c, n)"
      using n(2,3) True by (simp add: nearest_ok_def)
    with r(3) have 3: "\<forall>p \<in> set ((c, n) # r). nearest_ok ppt nuclei_list p" by simp
    show ?thesis by (intro exI conjI, rule 1, rule 2, rule 3)
  next
    case False
    from Cons.IH [of acc]
    obtain r where r: "commands_score_assign_loop ppt nuclei_list foci_list acc = Inr (acc @ r)"
      "map fst r = filter (\<lambda>c. \<exists>n \<in> set nuclei_list. - 50 < ppt (contour n) (Centre_centre c)) foci_list"
      "\<forall>p \<in> set r. nearest_ok ppt nuclei_list p" by blast
    have 1: "commands_score_assign_loop ppt nuclei_list (c # foci_list) acc = Inr (acc @ r)"
      using n(1) False r(1) by (simp add: Let_def)
    have nex: "\<not> (\<exists>n \<in> set nuclei_list. - 50 < ?d n)"
    proof
      assume "\<exists>n \<in> set nuclei_list. - 50 < ?d n"
      then obtain n' where "n' \<in> set nuclei_list" "- 50 < ?d n'" by blast
      with n(3) have "- 50 < ?d n" by fastforce
      with False show False by simp
    qed
    have 2: "map fst r
        = filter (\<lambda>c. \<exists>n \<in> set nuclei_list. - 50 < ppt (contour n) (Centre_centre c)) (c # foci_list)"
      using nex r(2) by simp
    show ?thesis by (intro exI conjI, rule 1, rule 2, rule r(3))
  qed
qed

lemma centrack_score_assign_loop_returns:
  assumes "nuclei_list \<noteq> []"
  shows "\<exists>r. centrack_score_assign_loop ppt nuclei_list foci_list acc = Inr (acc @ r)
     \<and> map fst r = foci_list"
proof (induction foci_list arbitrary: acc)
  case Nil
  show ?case by simp
next
  case (Cons c foci_list)
  let ?d = "\<lambda>n. ppt (contour n) (Centre_centre c)"
  from nearest_nucleus [OF assms, of ?d]
  obtain n where n: "py_max snd (map (\<lambda>n. (n, ?d n)) nuclei_list) = Inr (n, ?d n)" by blast
  from Cons.IH [of "acc @ [(c, n)]"]
  obtain r where r: "centrack_score_assign_loop ppt nuclei_list foci_list (acc @ [(c, n)])
      = Inr ((acc @ [(c, n)]) @ r)" "map fst r = foci_list" by blast
  have 1: "centrack_score_assign_loop ppt nuclei_list (c # foci_list) acc = Inr (acc @ ((c, n) # r))"
    using n r(1) by (simp add: Let_def)
  have 2: "map fst ((c, n) # r) = c # foci_list" using r(2) by simp
  show ?case by (intro exI conjI, rule 1, rule 2)
qed

lemma sqrt_100: "sqrt 100 = 10"
  by (rule real_sqrt_unique) simp_all

lemma pointPolygonTest_square_inside:
  "pointPolygonTest [(0, 0), (0, 20), (20, 20), (20, 0)] (10, 10) = 10"
  by (simp add: pointPolygonTest_def contour_edges_def FLT_MAX_def edge_dist_def
      edge_crossing_def Let_def sqrt_100)

lemma pointPolygonTest_square_outside:
  "pointPolygonTest [(0, 0), (0, 20), (20, 20), (20, 0)] (100, 100) = - sqrt 12800"
  by (simp add: pointPolygonTest_def contour_edges_def FLT_MAX_def edge_dist_def
      edge_crossing_def Let_def)

lemma sqrt_12800_gt: "50 < sqrt 12800"
  by (rule real_less_rsqrt) simp

text \<open>
  Claim C2. For non-empty lists of foci and of nuclei, the thresholded \<open>assign\<close> of
  \<open>centrack/commands/score.py\<close> returns normally; every returned pair joins a focus with
  a nucleus of the input whose signed distance to the focus is the greatest among all
  nuclei and exceeds the threshold, which the code fixes at \<open>-50\<close>; and the foci of the
  returned pairs are, in input order and once each, exactly the foci that have some
  nucleus at a signed distance above the threshold. With OpenCV's distance, the square
  contour \<open>[(0,0),(0,20),(20,20),(20,0)]\<close> is at distance \<open>10\<close> (positive, inside) from the
  focus \<open>(10,10)\<close> and at a negative distance (outside) from the focus \<open>(100,100)\<close>, and
  only the inside focus is assigned to it.
\<close>

theorem commands_score_assign_nearest_above_threshold:
  assumes "foci_list \<noteq> []" and "nuclei_list \<noteq> []"
  shows "(\<exists>r. commands_score_assign ppt foci_list nuclei_list = Inr r
           \<and> map fst r
               = filter (\<lambda>c. \<exists>n \<in> set nuclei_list. - 50 < ppt (contour n) (Centre_centre c))
                   foci_list
           \<and> (\<forall>p \<in> set r.
                 snd p \<in> set nuclei_list
                 \<and> - 50 < ppt (contour (snd p)) (Centre_centre (fst p))
                 \<and> (\<forall>n' \<in> set nuclei_list.
                       ppt (contour n') (Centre_centre (fst p))
                         \<le> ppt (contour (snd p)) (Centre_centre (fst p)))))
     \<and> pointPolygonTest [(0, 0), (0, 20), (20, 20), (20, 0)] (10, 10) = 10
     \<and> pointPolygonTest [(0, 0), (0, 20), (20, 20), (20, 0)] (100, 100) < 0
     \<and> commands_score_assign pointPolygonTest
          [\<lparr>idx = 0, label = ''Centriole'', confidence = - 1, position = (10, 10)\<rparr>,
           \<lparr>idx = 1, label = ''Centriole'', confidence = - 1, position = (100, 100)\<rparr>]
          [\<lparr>idx = 0, label = ''Nucleus'', confidence = - 1,
            contour = [(0, 0), (0, 20), (20, 20), (20, 0)]\<rparr>]
        = Inr [(\<lparr>idx = 0, label = ''Centriole'', confidence = - 1, position = (10, 10)\<rparr>,
                \<lparr>idx = 0, label = ''Nucleus'', confidence = - 1,
                 contour = [(0, 0), (0, 20), (20, 20), (20, 0)]\<rparr>)]"
proof -
  from commands_score_assign_loop_spec [OF assms(2), of ppt foci_list "[]"]
  obtain r where r: "commands_score_assign_loop ppt nuclei_list foci_list [] = Inr r"
    "map fst r = filter (\<lambda>c. \<exists>n \<in> set nuclei_list. - 50 < ppt (contour n) (Centre_centre c)) foci_list"
    "\<forall>p \<in> set r. nearest_ok ppt nuclei_list p" by auto
  have "commands_score_assign ppt foci_list nuclei_list = Inr r"
    using assms r(1) by (simp add: commands_score_assign_def)
  with r(2,3) have a: "\<exists>r. commands_score_assign ppt foci_list nuclei_list = Inr r
           \<and> map fst r
               = filter (\<lambda>c. \<exists>n \<in> set nuclei_list. - 50 < ppt (contour n) (Centre_centre c))
                   foci_list
           \<and> (\<forall>p \<in> set r.
                 snd p \<in> set nuclei_list
                 \<and> - 50 < ppt (contour (snd p)) (Centre_centre (fst p))
                 \<and> (\<forall>n' \<in> set nuclei_list.
                       ppt (contour n') (Centre_centre (fst p))
                         \<le> ppt (contour (snd p)) (Centre_centre (fst p))))"
    unfolding nearest_ok_def by blast
  have b: "pointPolygonTest [(0, 0), (0, 20), (20, 20), (20, 0)] (10, 10) = 10"
    by (rule pointPolygonTest_square_inside)
  have c: "pointPolygonTest [(0, 0), (0, 20), (20, 20), (20, 0)] (100, 100) < 0"
    using sqrt_12800_gt by (simp add: pointPolygonTest_square_outside)
  have d: "commands_score_assign pointPolygonTest
          [\<lparr>idx = 0, label = ''Centriole'', confidence = - 1, position = (10, 10)\<rparr>,
           \<lparr>idx = 1, label = ''Centriole'', confidence = - 1, position = (100, 100)\<rparr>]
          [\<lparr>idx = 0, label = ''Nucleus'', confidence = - 1,
            contour = [(0, 0), (0, 20), (20, 20), (20, 0)]\<rparr>]
        = Inr [(\<lparr>idx = 0, label = ''Centriole'', confidence = - 1, position = (10, 10)\<rparr>,
                \<lparr>idx = 0, label = ''Nucleus'', confidence = - 1,
                 contour = [(0, 0), (0, 20), (20, 20), (20, 0)]\<rparr>)]"
    using sqrt_12800_gt
    by (simp add: commands_score_assign_def py_max_def Centre_centre_def Centre_row_def
        Centre_col_def pointPolygonTest_square_inside pointPolygonTest_square_outside)
  from a b c d show ?thesis by blast
qed

theorem commands_score_assign_nearest_above_threshold_witness:
  "commands_score_assign (\<lambda>cnt pt. real_of_int (fst pt) - 60)
      [\<lparr>idx = 0, label = ''Centriole'', confidence = - 1, position = (30, 4)\<rparr>,
       \<lparr>idx = 1, label = ''Centriole'', confidence = - 1, position = (5, 4)\<rparr>]
      [\<lparr>idx = 0, label = ''Nucleus'', confidence = - 1, contour = [(0, 0), (0, 2), (2, 2)]\<rparr>]
     = Inr [(\<lparr>idx = 0, label = ''Centriole'', confidence = - 1, position = (30, 4)\<rparr>,
             \<lparr>idx = 0, label = ''Nucleus'', confidence = - 1, contour = [(0, 0), (0, 2), (2, 2)]\<rparr>)]
   \<and> pointPolygonTest [(0, 0), (0, 20), (20, 20), (20, 0)] (100, 100) < 0"
proof -
  let ?f1 = "\<lparr>idx = 0, label = ''Centriole'', confidence = - 1, position = (30, 4)\<rparr>"
  let ?f2 = "\<lparr>idx = 1, label = ''Centriole'', confidence = - 1, position = (5, 4)\<rparr>"
  let ?n = "\<lparr>idx = 0, label = ''Nucleus'', confidence = - 1, contour = [(0, 0), (0, 2), (2, 2)]\<rparr>"
  have h1: "[?f1, ?f2] \<noteq> []" by simp
  have h2: "[?n] \<noteq> []" by simp
  note t = commands_score_assign_nearest_above_threshold
    [OF h1 h2, of "\<lambda>cnt pt. real_of_int (fst pt) - 60"]
  from t obtain r where r:
    "commands_score_assign (\<lambda>cnt pt. real_of_int (fst pt) - 60) [?f1, ?f2] [?n] = Inr r"
    "map fst r = filter (\<lambda>c. \<exists>n \<in> set [?n]. - 50 < (\<lambda>cnt pt. real_of_int (fst pt) - 60) (contour n) (Centre_centre c)) [?f1, ?f2]"
    "\<forall>p \<in> set r. snd p \<in> set [?n]" by blast
  from r(2) have m: "map fst r = [?f1]"
    by (simp add: Centre_centre_def Centre_row_def Centre_col_def)
  then obtain p where p: "r = [p]" "fst p = ?f1" by (cases r) auto
  with r(3) have "snd p = ?n" by simp
  with p have "r = [(?f1, ?n)]" by (cases p) simp
  with r(1) t show ?thesis by blast
qed

text \<open>
  Claim C5. Both nearest-nucleus versions of \<open>assign\<close> return a normal result exactly
  when the foci list and the nucleus list are both non-empty. An empty foci list raises
  \<open>ValueError('Empty foci list')\<close>; a non-empty foci list with an empty nucleus list raises
  \<open>ValueError('Empty nuclei list')\<close>. This \<open>ValueError\<close> is the specification's
  \<open>EmptyInputError\<close>.
\<close>

theorem score_assign_raises_iff_empty:
  "((\<exists>r. commands_score_assign ppt foci_list nuclei_list = Inr r)
      = (foci_list \<noteq> [] \<and> nuclei_list \<noteq> []))
   \<and> (foci_list = [] \<longrightarrow>
         commands_score_assign ppt foci_list nuclei_list = Inl (ValueError ''Empty foci list''))
   \<and> (foci_list \<noteq> [] \<and> nuclei_list = [] \<longrightarrow>
         commands_score_assign ppt foci_list nuclei_list = Inl (ValueError ''Empty nuclei list''))
   \<and> ((\<exists>r. centrack_score_assign ppt foci_list nuclei_list = Inr r)
      = (foci_list \<noteq> [] \<and> nuclei_list \<noteq> []))
   \<and> (foci_list = [] \<longrightarrow>
         centrack_score_assign ppt foci_list nuclei_list = Inl (ValueError ''Empty foci list''))
   \<and> (foci_list \<noteq> [] \<and> nuclei_list = [] \<longrightarrow>
         centrack_score_assign ppt foci_list nuclei_list = Inl (ValueError ''Empty nuclei list''))"
proof -
  have a: "(\<exists>r. commands_score_assign ppt foci_list nuclei_list = Inr r)
      = (foci_list \<noteq> [] \<and> nuclei_list \<noteq> [])"
  proof (cases "foci_list \<noteq> [] \<and> nuclei_list \<noteq> []")
    case True
    then have ne: "nuclei_list \<noteq> []" by simp
    from commands_score_assign_loop_spec [OF ne, of ppt foci_list "[]"]
    obtain r where "commands_score_assign_loop ppt nuclei_list foci_list [] = Inr r" by auto
    with True show ?thesis by (simp add: commands_score_assign_def)
  next
    case False
    then show ?thesis by (auto simp: commands_score_assign_def)
  qed
  have b: "(\<exists>r. centrack_score_assign ppt foci_list nuclei_list = Inr r)
      = (foci_list \<noteq> [] \<and> nuclei_list \<noteq> [])"
  proof (cases "foci_list \<noteq> [] \<and> nuclei_list \<noteq> []")
    case True
    then have ne: "nuclei_list \<noteq> []" by simp
    from centrack_score_assign_loop_returns [OF ne, of ppt foci_list "[]"]
    obtain r where "centrack_score_assign_loop ppt nuclei_list foci_list [] = Inr r" by auto
    with True show ?thesis by (simp add: centrack_score_assign_def)
  next
    case False
    then show ?thesis by (auto simp: centrack_score_assign_def)
  qed
  have c: "foci_list = [] \<longrightarrow>
         commands_score_assign ppt foci_list nuclei_list = Inl (ValueError ''Empty foci list'')"
    by (simp add: commands_score_assign_def)
  have d: "foci_list \<noteq> [] \<and> nuclei_list = [] \<longrightarrow>
         commands_score_assign ppt foci_list nuclei_list = Inl (ValueError ''Empty nuclei list'')"
    by (simp add: commands_score_assign_def)
  have e: "foci_list = [] \<longrightarrow>
         centrack_score_assign ppt foci_list nuclei_list = Inl (ValueError ''Empty foci list'')"
    by (simp add: centrack_score_assign_def)
  have f: "foci_list \<noteq> [] \<and> nuclei_list = [] \<longrightarrow>
         centrack_score_assign ppt foci_list nuclei_list = Inl (ValueError ''Empty nuclei list'')"
    by (simp add: centrack_score_assign_def)
  from a b c d e f show ?thesis by blast
qed

theorem score_assign_raises_iff_empty_witness:
  "commands_score_assign pointPolygonTest []
      [\<lparr>idx = 0, label = ''Nucleus'', confidence = - 1, contour = [(0, 0), (0, 2), (2, 2)]\<rparr>]
     = Inl (ValueError ''Empty foci list'')
   \<and> centrack_score_assign pointPolygonTest
      [\<lparr>idx = 0, label = ''Centriole'', confidence = - 1, position = (1, 1)\<rparr>] []
     = Inl (ValueError ''Empty nuclei list'')
   \<and> (\<exists>r. centrack_score_assign pointPolygonTest
      [\<lparr>idx = 0, label = ''Centriole'', confidence = - 1, position = (1, 1)\<rparr>]
      [\<lparr>idx = 0, label = ''Nucleus'', confidence = - 1, contour = [(0, 0), (0, 2), (2, 2)]\<rparr>]
     = Inr r)"
proof -
  let ?f = "\<lparr>idx = 0, label = ''Centriole'', confidence = - 1, position = (1, 1)\<rparr>"
  let ?n = "\<lparr>idx = 0, label = ''Nucleus'', confidence = - 1, contour = [(0, 0), (0, 2), (2, 2)]\<rparr>"
  have 1: "commands_score_assign pointPolygonTest [] [?n] = Inl (ValueError ''Empty foci list'')"
    using score_assign_raises_iff_empty [of pointPolygonTest "[]" "[?n]"] by blast
  have 2: "centrack_score_assign pointPolygonTest [?f] [] = Inl (ValueError ''Empty nuclei list'')"
    using score_assign_raises_iff_empty [of pointPolygonTest "[?f]" "[]"] by blast
  have 3: "\<exists>r. centrack_score_assign pointPolygonTest [?f] [?n] = Inr r"
    using score_assign_raises_iff_empty [of pointPolygonTest "[?f]" "[?n]"] by blast
  from 1 2 3 show ?thesis by blast
qed

section \<open>Properties of \<open>Contour\<close>\<close>

lemma moments_m00_nonneg: "0 \<le> m00 (moments cnt)"
  by (simp add: moments_def Let_def)

lemma py_truediv_pos: "0 < b \<Longrightarrow> py_truediv a b = Inr (a / b)"
  by (simp add: py_truediv_def)

lemma moments_rectangle:
  "moments [(100, 0), (100, 20), (120, 20), (120, 0)] = \<lparr>m00 = 400, m10 = 44000, m01 = 4000\<rparr>"
  by (simp add: moments_def FLT_EPSILON_def Let_def)

lemma moments_single_point: "moments [(5, 7)] = \<lparr>m00 = 0, m10 = 0, m01 = 0\<rparr>"
  by (simp add: moments_def FLT_EPSILON_def Let_def)

lemma boundingRect_rectangle:
  "boundingRect [(100, 0), (100, 20), (120, 20), (120, 0)] = (100, 0, 21, 21)"
  by (simp add: boundingRect_def Let_def)

lemma py_int_row: "py_int (400000000 / 40000001) = 9"
  by (simp add: py_int_def)

lemma py_int_col: "py_int (4400000000 / 40000001) = 109"
  by (simp add: py_int_def)

text \<open>
  Claim C6 fails on the code. For the rectangle with OpenCV vertices
  \<open>(100,0), (100,20), (120,20), (120,0)\<close>, which has area 400, \<open>Contour.centre\<close> is the
  position \<open>(9, 109)\<close>: the first coordinate comes from \<open>m01\<close> (OpenCV's \<open>y\<close>) and the
  second from \<open>m10\<close> (OpenCV's \<open>x\<close>). \<open>Contour.bbox\<close> has the corners \<open>(100, 0)\<close> and
  \<open>(121, 21)\<close>: their first coordinate is OpenCV's \<open>x\<close>. The first coordinate of the centre,
  9, is below the first coordinate of the top-left corner, 100, and the second, 109, is
  above the second coordinate of the bottom-right corner, 21.
\<close>

theorem Contour_centre_outside_bbox:
  "Contour_centre \<lparr>idx = 0, label = ''Nucleus'', confidence = - 1,
                   contour = [(100, 0), (100, 20), (120, 20), (120, 0)]\<rparr>
     = Inr \<lparr>idx = 0, label = ''Nucleus'', confidence = - 1, position = (9, 109)\<rparr>
   \<and> top_left (Contour_bbox \<lparr>idx = 0, label = ''Nucleus'', confidence = - 1,
                   contour = [(100, 0), (100, 20), (120, 20), (120, 0)]\<rparr>) = (100, 0)
   \<and> bottom_right (Contour_bbox \<lparr>idx = 0, label = ''Nucleus'', confidence = - 1,
                   contour = [(100, 0), (100, 20), (120, 20), (120, 0)]\<rparr>) = (121, 21)"
  by (simp add: Contour_centre_def Contour_bbox_def moments_rectangle boundingRect_rectangle
      py_truediv_def py_int_row py_int_col)

text \<open>
  Claim C8. For every contour the area \<open>m00\<close> is not negative, so the divisor
  \<open>m00 + 1e-5\<close> of both centroid divisions is positive and \<open>Contour.centre\<close>, in
  \<open>centrack/annotation.py\<close> and in \<open>cenfind/core/outline.py\<close>, returns a centre without
  raising. A contour of a single point is degenerate: its \<open>m00\<close> is zero and its centre is
  the position \<open>(0, 0)\<close>.
\<close>

theorem Contour_centre_no_zero_division:
  "0 \<le> m00 (moments (contour cn))
   \<and> 0 < m00 (moments (contour cn)) + 1 / 100000
   \<and> Contour_centre cn
       = Inr \<lparr>idx = idx cn, label = label cn, confidence = confidence cn,
              position = (py_int (m01 (moments (contour cn)) / (m00 (moments (contour cn)) + 1 / 100000)),
                          py_int (m10 (moments (contour cn)) / (m00 (moments (contour cn)) + 1 / 100000)))\<rparr>
   \<and> 0 < m00 (moments (contour oc)) + 1 / 100000
   \<and> outline_Contour_centre oc
       = Inr (outline_Centre
               (py_int (m01 (moments (contour oc)) / (m00 (moments (contour oc)) + 1 / 100000)),
                py_int (m10 (moments (contour oc)) / (m00 (moments (contour oc)) + 1 / 100000)))
               (idx oc) (label oc) (confidence oc) None)
   \<and> m00 (moments [(5, 7)]) = 0
   \<and> Contour_centre \<lparr>idx = 3, label = ''Nucleus'', confidence = - 1, contour = [(5, 7)]\<rparr>
       = Inr \<lparr>idx = 3, label = ''Nucleus'', confidence = - 1, position = (0, 0)\<rparr>"
proof -
  have a: "0 \<le> m00 (moments (contour cn))" by (rule moments_m00_nonneg)
  then have b: "0 < m00 (moments (contour cn)) + 1 / 100000" by simp
  have c: "Contour_centre cn
       = Inr \<lparr>idx = idx cn, label = label cn, confidence = confidence cn,
              position = (py_int (m01 (moments (contour cn)) / (m00 (moments (contour cn)) + 1 / 100000)),
                          py_int (m10 (moments (contour cn)) / (m00 (moments (contour cn)) + 1 / 100000)))\<rparr>"
    by (simp add: Contour_centre_def Let_def py_truediv_pos [OF b])
  have "0 \<le> m00 (moments (contour oc))" by (rule moments_m00_nonneg)
  then have d: "0 < m00 (moments (contour oc)) + 1 / 100000" by simp
  have e: "outline_Contour_centre oc
       = Inr (outline_Centre
               (py_int (m01 (moments (contour oc)) / (m00 (moments (contour oc)) + 1 / 100000)),
                py_int (m10 (moments (contour oc)) / (m00 (moments (contour oc)) + 1 / 100000)))
               (idx oc) (label oc) (confidence oc) None)"
    by (simp add: outline_Contour_centre_def Let_def py_truediv_pos [OF d])
  have f: "m00 (moments [(5, 7)]) = 0" by (simp add: moments_single_point)
  have g: "Contour_centre \<lparr>idx = 3, label = ''Nucleus'', confidence = - 1, contour = [(5, 7)]\<rparr>
       = Inr \<lparr>idx = 3, label = ''Nucleus'', confidence = - 1, position = (0, 0)\<rparr>"
    by (simp add: Contour_centre_def moments_single_point py_truediv_def py_int_def)
  from a b c d e f g show ?thesis by simp
qed

section \<open>Properties of \<open>field_metrics\<close>\<close>

lemma np_round_zero: "np_round 0 n = 0"
  by (simp add: np_round_def rint_def)

text \<open>
  Claim C3. When the annotated or the predicted point set is empty, \<open>field_metrics\<close> does
  not call \<open>points_matching\<close> and returns a record, whatever \<open>points_matching\<close> would do:
  precision, recall and f1 are 0, and \<open>n_actual\<close> and \<open>n_preds\<close> are the sizes of the two
  sets.
\<close>

theorem field_metrics_empty_input:
  assumes "annotation = [] \<or> predictions = []"
  shows "\<exists>perf. field_metrics points_matching field ch annotation predictions tolerance
                  = Inr perf
           \<and> perf ''precision'' = Some (PyFloat 0)
           \<and> perf ''recall'' = Some (PyFloat 0)
           \<and> perf ''f1'' = Some (PyFloat 0)
           \<and> perf ''n_actual'' = Some (PyInt (int (length annotation)))
           \<and> perf ''n_preds'' = Some (PyInt (int (length predictions)))"
proof -
  from assms have g: "\<not> int_of_bool (py_all [length predictions, length annotation]) > 0"
    by (auto simp: int_of_bool_def py_all_def)
  show ?thesis
    unfolding field_metrics_def using g by (simp add: np_round_zero)
qed

theorem field_metrics_empty_input_witness:
  "\<exists>perf. field_metrics (\<lambda>a p t. Inl (ValueError ''no points''))
             \<lparr>dataset_path_name = ''ds1'', field_name = ''f0''\<rparr> 1 [] [(3, 4), (5, 6)] 3
           = Inr perf
     \<and> perf ''precision'' = Some (PyFloat 0)
     \<and> perf ''recall'' = Some (PyFloat 0)
     \<and> perf ''f1'' = Some (PyFloat 0)
     \<and> perf ''n_actual'' = Some (PyInt 0)
     \<and> perf ''n_preds'' = Some (PyInt 2)"
proof -
  have h: "([] :: (int \<times> int) list) = [] \<or> [(3, 4), (5, 6) :: int \<times> int] = []" by simp
  show ?thesis
    using field_metrics_empty_input [OF h, of "\<lambda>a p t. Inl (ValueError ''no points'')"
        "\<lparr>dataset_path_name = ''ds1'', field_name = ''f0''\<rparr>" 1 3]
    by simp
qed

section \<open>Properties of the frequency binning\<close>

lemma pd_cut_explicit:
  "pd_cut cuts [''0'', ''1'', ''2'', ''3'', ''4'', ''+''] s =
     Some (if s = 0 then ''0'' else if s = 1 then ''1'' else if s = 2 then ''2''
           else if s = 3 then ''3'' else if s = 4 then ''4'' else ''+'')"
proof -
  consider "s = 0" | "s = 1" | "s = 2" | "s = 3" | "s = 4" | "5 \<le> s" by linarith
  then show ?thesis
    by cases
      (simp_all add: pd_cut_def searchsorted_right_def cuts_def Let_def
        numeral_eq_enat zero_enat_def one_enat_def)
qed

lemma pd_cut_label_iff:
  "(pd_cut cuts labels s = Some ''0'') = (s = 0)"
  "(pd_cut cuts labels s = Some ''1'') = (s = 1)"
  "(pd_cut cuts labels s = Some ''2'') = (s = 2)"
  "(pd_cut cuts labels s = Some ''3'') = (s = 3)"
  "(pd_cut cuts labels s = Some ''4'') = (s = 4)"
  "(pd_cut cuts labels s = Some ''+'') = (5 \<le> s)"
  by (auto simp: labels_def pd_cut_explicit)

lemma pd_cut_in_labels: "\<exists>l \<in> set labels. pd_cut cuts labels s = Some l"
  by (simp add: labels_def pd_cut_explicit)

lemma field_score_frequency_rows:
  "field_score_frequency df =
     map (\<lambda>g. (g, map (\<lambda>l. (l, length (filter (\<lambda>r. (fov r, channel r) = g
                                            \<and> pd_cut cuts labels (score r) = Some l) df))) labels))
       (sort (remdups (map (\<lambda>r. (fov r, channel r)) df)))"
proof -
  have len: "length (filter (\<lambda>x. x = (g, Some l))
                 (map (\<lambda>r. ((fov r, channel r), pd_cut cuts labels (score r))) df))
      = length (filter (\<lambda>r. (fov r, channel r) = g \<and> pd_cut cuts labels (score r) = Some l) df)"
    for g l
    by (induction df) auto
  show ?thesis
    by (simp add: field_score_frequency_def Let_def comp_def len)
qed

lemma bucket_counts_total:
  "sum_list (map (\<lambda>l. length (filter (\<lambda>r. P r \<and> pd_cut cuts labels (score r) = Some l) df)) labels)
     = length (filter P df)"
proof (induction df)
  case Nil
  show ?case by (simp add: labels_def)
next
  case (Cons r df)
  consider "score r = 0" | "score r = 1" | "score r = 2" | "score r = 3" | "score r = 4"
    | "5 \<le> score r" by linarith
  then show ?case
    using Cons.IH by cases (auto simp: labels_def pd_cut_explicit)
qed

text \<open>
  Claim C4. The cut assigns every score exactly one of the six distinct labels: label
  \<open>k\<close> (for \<open>k < 5\<close>) exactly to the scores equal to \<open>k\<close>, and \<open>+\<close> exactly to the scores
  that are at least 5, with no upper bound. The frequency table has one row per
  \<open>(fov, channel)\<close> group; the row holds, for each label in order, the number of the
  group's records whose score falls in that bucket, and these numbers add up to the
  number of the group's records. The records with scores 0, 1, 1 and 6 of one group give
  the counts \<open>0:1, 1:2, 2:0, 3:0, 4:0, +:1\<close>.
\<close>

theorem field_score_frequency_buckets:
  "(\<exists>l \<in> set labels. pd_cut cuts labels s = Some l)
   \<and> distinct labels
   \<and> (pd_cut cuts labels s = Some ''0'') = (s = 0)
   \<and> (pd_cut cuts labels s = Some ''1'') = (s = 1)
   \<and> (pd_cut cuts labels s = Some ''2'') = (s = 2)
   \<and> (pd_cut cuts labels s = Some ''3'') = (s = 3)
   \<and> (pd_cut cuts labels s = Some ''4'') = (s = 4)
   \<and> (pd_cut cuts labels s = Some ''+'') = (5 \<le> s)
   \<and> map fst (field_score_frequency df) = sort (remdups (map (\<lambda>r. (fov r, channel r)) df))
   \<and> (\<forall>row \<in> set (field_score_frequency df).
         snd row = map (\<lambda>l. (l, length (filter (\<lambda>r. (fov r, channel r) = fst row
                                  \<and> pd_cut cuts labels (score r) = Some l) df))) labels
         \<and> sum_list (map snd (snd row))
             = length (filter (\<lambda>r. (fov r, channel r) = fst row) df))
   \<and> field_score_frequency
        [\<lparr>fov = ''f1'', channel = 1, nucleus = (10, 10), score = 0, is_full = True\<rparr>,
         \<lparr>fov = ''f1'', channel = 1, nucleus = (40, 10), score = 1, is_full = True\<rparr>,
         \<lparr>fov = ''f1'', channel = 1, nucleus = (10, 40), score = 1, is_full = True\<rparr>,
         \<lparr>fov = ''f1'', channel = 1, nucleus = (40, 40), score = 6, is_full = True\<rparr>]
       = [((''f1'', 1),
           [(''0'', 1), (''1'', 2), (''2'', 0), (''3'', 0), (''4'', 0), (''+'', 1)])]"
proof -
  have a: "\<exists>l \<in> set labels. pd_cut cuts labels s = Some l" by (rule pd_cut_in_labels)
  have b: "distinct labels" by (simp add: labels_def)
  have c: "map fst (field_score_frequency df) = sort (remdups (map (\<lambda>r. (fov r, channel r)) df))"
    by (simp add: field_score_frequency_rows comp_def)
  have d: "\<forall>row \<in> set (field_score_frequency df).
         snd row = map (\<lambda>l. (l, length (filter (\<lambda>r. (fov r, channel r) = fst row
                                  \<and> pd_cut cuts labels (score r) = Some l) df))) labels
         \<and> sum_list (map snd (snd row))
             = length (filter (\<lambda>r. (fov r, channel r) = fst row) df)"
  proof
    fix row
    assume "row \<in> set (field_score_frequency df)"
    then have 1: "snd row = map (\<lambda>l. (l, length (filter (\<lambda>r. (fov r, channel r) = fst row
                                  \<and> pd_cut cuts labels (score r) = Some l) df))) labels"
      by (auto simp: field_score_frequency_rows)
    have 2: "sum_list (map snd (snd row))
        = length (filter (\<lambda>r. (fov r, channel r) = fst row) df)"
      using bucket_counts_total [of "\<lambda>r. (fov r, channel r) = fst row" df]
      by (simp add: 1 comp_def)
    from 1 2 show "snd row = map (\<lambda>l. (l, length (filter (\<lambda>r. (fov r, channel r) = fst row
                                  \<and> pd_cut cuts labels (score r) = Some l) df))) labels
         \<and> sum_list (map snd (snd row))
             = length (filter (\<lambda>r. (fov r, channel r) = fst row) df)" by simp
  qed
  have e: "field_score_frequency
        [\<lparr>fov = ''f1'', channel = 1, nucleus = (10, 10), score = 0, is_full = True\<rparr>,
         \<lparr>fov = ''f1'', channel = 1, nucleus = (40, 10), score = 1, is_full = True\<rparr>,
         \<lparr>fov = ''f1'', channel = 1, nucleus = (10, 40), score = 1, is_full = True\<rparr>,
         \<lparr>fov = ''f1'', channel = 1, nucleus = (40, 40), score = 6, is_full = True\<rparr>]
       = [((''f1'', 1),
           [(''0'', 1), (''1'', 2), (''2'', 0), (''3'', 0), (''4'', 0), (''+'', 1)])]"
    by (simp add: field_score_frequency_rows labels_def pd_cut_explicit)
  show ?thesis by (intro conjI) (rule a b c d e pd_cut_label_iff)+
qed

theorem field_score_frequency_buckets_witness:
  "field_score_frequency
     [\<lparr>fov = ''f2'', channel = 2, nucleus = (1, 1), score = 7, is_full = False\<rparr>,
      \<lparr>fov = ''f1'', channel = 2, nucleus = (2, 2), score = 4, is_full = True\<rparr>,
      \<lparr>fov = ''f2'', channel = 2, nucleus = (3, 3), score = 5, is_full = True\<rparr>]
     = [((''f1'', 2), [(''0'', 0), (''1'', 0), (''2'', 0), (''3'', 0), (''4'', 1), (''+'', 0)]),
        ((''f2'', 2), [(''0'', 0), (''1'', 0), (''2'', 0), (''3'', 0), (''4'', 0), (''+'', 2)])]
   \<and> sum_list (map snd [(''0'', 0 :: nat), (''1'', 0), (''2'', 0), (''3'', 0), (''4'', 0), (''+'', 2)])
       = length (filter (\<lambda>r. (fov r, channel r) = (''f2'', 2))
          [\<lparr>fov = ''f2'', channel = 2, nucleus = (1, 1), score = 7, is_full = False\<rparr>,
           \<lparr>fov = ''f1'', channel = 2, nucleus = (2, 2), score = 4, is_full = True\<rparr>,
           \<lparr>fov = ''f2'', channel = 2, nucleus = (3, 3), score = 5, is_full = True\<rparr>])"
proof -
  let ?df = "[\<lparr>fov = ''f2'', channel = 2, nucleus = (1, 1), score = 7, is_full = False\<rparr>,
      \<lparr>fov = ''f1'', channel = 2, nucleus = (2, 2), score = 4, is_full = True\<rparr>,
      \<lparr>fov = ''f2'', channel = 2, nucleus = (3, 3), score = 5, is_full = True\<rparr>]"
  let ?row = "((''f2'', 2 :: int), [(''0'', 0 :: nat), (''1'', 0), (''2'', 0), (''3'', 0), (''4'', 0), (''+'', 2)])"
  have v: "field_score_frequency ?df
     = [((''f1'', 2), [(''0'', 0), (''1'', 0), (''2'', 0), (''3'', 0), (''4'', 1), (''+'', 0)]), ?row]"
    by code_simp
  then have m: "?row \<in> set (field_score_frequency ?df)" by simp
  note t = field_score_frequency_buckets [of 0 ?df,
      THEN conjunct2, THEN conjunct2, THEN conjunct2, THEN conjunct2, THEN conjunct2,
      THEN conjunct2, THEN conjunct2, THEN conjunct2, THEN conjunct2, THEN conjunct1,
      rule_format, OF m]
  from t have "sum_list (map snd (snd ?row))
      = length (filter (\<lambda>r. (fov r, channel r) = fst ?row) ?df)" by (rule conjunct2)
  with v show ?thesis by simp
qed

section \<open>Properties of \<open>save_foci\<close>\<close>

lemma digit_char_not_newline: "d < 10 \<Longrightarrow> digit_char d \<noteq> newline"
proof -
  assume "d < 10"
  then have "d < length ''0123456789''" by simp
  then have "''0123456789'' ! d \<in> set ''0123456789''" by (rule nth_mem)
  moreover have "newline \<notin> set ''0123456789''" by (simp add: newline_def)
  ultimately show ?thesis unfolding digit_char_def by metis
qed

lemma digits_no_newline: "newline \<notin> set (digits n)"
proof (induction n rule: digits.induct)
  case (1 n)
  show ?case
  proof (cases "n < 10")
    case True
    then show ?thesis
      using digit_char_not_newline [of n] by (subst digits.simps) auto
  next
    case False
    have "n mod 10 < 10" by simp
    then have "digit_char (n mod 10) \<noteq> newline" by (rule digit_char_not_newline)
    with False "1.IH" show ?thesis by (subst digits.simps) auto
  qed
qed

lemma format_u_no_newline: "newline \<notin> set (format_u n)"
  by (simp add: format_u_def digits_no_newline) (simp add: newline_def)

lemma to_numpy_length: "length (to_numpy c) = 2"
  by (simp add: to_numpy_def split: prod.splits)

lemma np_stack_to_numpy:
  "foci_list \<noteq> [] \<Longrightarrow> np_stack (map to_numpy foci_list) = Inr (Array2 (map to_numpy foci_list))"
  by (cases foci_list) (simp_all add: np_stack_def to_numpy_length list_all_iff)

lemma take_columns_to_numpy:
  "take_columns (Array2 (map to_numpy foci_list)) [Suc 0, 0]
     = Inr (Array2 (map (\<lambda>c. [snd (outline_position c), fst (outline_position c)]) foci_list))"
  by (simp add: take_columns_def list_all_iff to_numpy_length)
    (simp add: to_numpy_def outline_Centre_centre_def split: prod.splits)

lemma filter_newline_rows:
  "length (filter (\<lambda>ch. ch = newline)
      (concat (map (\<lambda>c. format_u (f c) @ '','' @ format_u (g c) @ [newline]) foci_list)))
     = length foci_list"
proof (induction foci_list)
  case Nil
  show ?case by simp
next
  case (Cons c foci_list)
  have 1: "filter (\<lambda>ch. ch = newline) (format_u (f c)) = []"
    using format_u_no_newline [of "f c"] by (auto simp: filter_empty_conv)
  have 2: "filter (\<lambda>ch. ch = newline) (format_u (g c)) = []"
    using format_u_no_newline [of "g c"] by (auto simp: filter_empty_conv)
  have 3: "CHR '','' \<noteq> newline" by (simp add: newline_def)
  show ?case using Cons.IH by (simp add: 1 2 3)
qed

text \<open>
  Claim C9. For a non-empty list of foci, \<open>save_foci\<close> writes to \<open>dst\<close> one line per focus,
  in the order of the list: the column of the focus, a comma, the row of the focus, and a
  newline, both coordinates as decimal integers. The number of newlines in the file is the
  number of foci, and no other file changes.
\<close>

theorem save_foci_rows:
  assumes "foci_list \<noteq> []"
  shows "\<exists>content.
           save_foci foci_list dst files = Inr (files(dst \<mapsto> content))
         \<and> content = concat (map (\<lambda>c. format_u (snd (outline_position c)) @ '',''
                                      @ format_u (fst (outline_position c)) @ [newline])
                               foci_list)
         \<and> length (filter (\<lambda>ch. ch = newline) content) = length foci_list"
proof -
  let ?content = "concat (map (\<lambda>c. format_u (snd (outline_position c)) @ '',''
                                      @ format_u (fst (outline_position c)) @ [newline])
                               foci_list)"
  have 1: "save_foci foci_list dst files = Inr (files(dst \<mapsto> ?content))"
    using assms
    by (simp add: save_foci_def np_stack_to_numpy take_columns_to_numpy savetxt_def comp_def)
  have 2: "length (filter (\<lambda>ch. ch = newline) ?content) = length foci_list"
    by (rule filter_newline_rows)
  from 1 2 show ?thesis by blast
qed

theorem save_foci_rows_witness:
  "save_foci [outline_Centre (3, 14) 0 ''Centriole'' 0 None,
              outline_Centre (120, 7) 1 ''Centriole'' 0 None] ''foci.txt'' Map.empty
     = Inr [''foci.txt'' \<mapsto> ''14,3'' @ [newline] @ ''7,120'' @ [newline]]"
proof -
  let ?foci = "[outline_Centre (3, 14) 0 ''Centriole'' 0 None,
                outline_Centre (120, 7) 1 ''Centriole'' 0 None]"
  have h: "?foci \<noteq> []" by simp
  have f: "format_u 14 = ''14''" "format_u 3 = ''3''" "format_u 7 = ''7''" "format_u 120 = ''120''"
    by (simp_all add: format_u_def digits.simps digit_char_def)
  from save_foci_rows [OF h, of "''foci.txt''" Map.empty]
  show ?thesis by (auto simp: f)
qed

text \<open>
  Claim C10. With an empty list of foci, \<open>save_foci\<close> raises \<open>IndexError\<close> and writes
  nothing: the empty branch makes the one-dimensional \<open>np.array([])\<close>, and the column
  reordering \<open>array[:, [1, 0]]\<close> needs two dimensions, so \<open>np.savetxt\<close> is never reached.
  The test \<open>test_save_foci\<close> calls \<open>save_foci\<close> with the empty list.
\<close>

theorem save_foci_empty_raises:
  "save_foci [] dst files = Inl IndexError
   \<and> take_columns (Array1 []) [1, 0] = Inl IndexError"
  by (simp add: save_foci_def take_columns_def)

end
